theory Spec2Isabelle
  imports Main "HOL-Library.AList"
begin

section \<open>Python values and library behaviour used by custom_streaming.py\<close>

text \<open>
  Exceptions are values. Every function of the source that can raise returns
  \<open>error + 'a\<close>, with \<open>Inl\<close> for the exception.
\<close>

datatype error =
    ValueError | IndexError | TypeError | KeyError | AttributeError
  | ZeroDivisionError | FileNotFoundError | FileExistsError | IsADirectoryError
  | JSONDecodeError | ZstdError | ArrowInvalid | ParserError

subsection \<open>range, slices and string helpers\<close>

text \<open>
  \<open>range(start, stop, step)\<close>: the loop that counts up for a positive step, the loop
  that counts down for a negative one, and ValueError for a zero step.
\<close>

function range_up :: "int \<Rightarrow> int \<Rightarrow> int \<Rightarrow> int list" where
  "range_up i stop step =
     (if 0 < step \<and> i < stop then i # range_up (i + step) stop step else [])"
  by pat_completeness auto
termination
  by (relation "measure (\<lambda>(i, stop, step). nat (stop - i))") auto

function range_down :: "int \<Rightarrow> int \<Rightarrow> int \<Rightarrow> int list" where
  "range_down i stop step =
     (if step < 0 \<and> stop < i then i # range_down (i + step) stop step else [])"
  by pat_completeness auto
termination
  by (relation "measure (\<lambda>(i, stop, step). nat (i - stop))") auto

declare range_up.simps [simp del] range_down.simps [simp del]

definition py_range :: "int \<Rightarrow> int \<Rightarrow> int \<Rightarrow> error + int list" where
  "py_range start stop step =
     (if step = 0 then Inl ValueError
      else if 0 < step then Inr (range_up start stop step)
      else Inr (range_down start stop step))"

text \<open>
  A slice \<open>xs[i:j]\<close>: negative bounds count from the end, and every bound is clipped to
  the list.
\<close>

definition clamp_index :: "nat \<Rightarrow> int \<Rightarrow> nat" where
  "clamp_index n i = (if i < 0 then nat (max (i + int n) 0) else min (nat i) n)"

definition py_slice :: "'a list \<Rightarrow> int \<Rightarrow> int \<Rightarrow> 'a list" where
  "py_slice xs i j =
     (let a = clamp_index (length xs) i; b = clamp_index (length xs) j
      in take (b - a) (drop a xs))"

text \<open>
  Indexing \<open>xs[i]\<close> as pandas' positional \<open>iloc\<close> does it: a negative position counts
  from the end, a position outside the data raises IndexError.
\<close>

definition iloc_at :: "'a list \<Rightarrow> int \<Rightarrow> error + 'a" where
  "iloc_at xs i =
     (let n = int (length xs); j = (if i < 0 then i + n else i)
      in if 0 \<le> j \<and> j < n then Inr (xs ! nat j) else Inl IndexError)"

definition endswith :: "string \<Rightarrow> string \<Rightarrow> bool" where
  "endswith s suf = (length suf \<le> length s \<and> drop (length s - length suf) s = suf)"

text \<open>\<open>os.path.join\<close> on a POSIX system, for two components.\<close>

definition path_join :: "string \<Rightarrow> string \<Rightarrow> string" where
  "path_join d n =
     (if n \<noteq> [] \<and> hd n = CHR ''/'' then n
      else if d = [] \<or> last d = CHR ''/'' then d @ n
      else d @ ''/'' @ n)"

text \<open>Decimal digits of a number, and the format \<open>{k:05d}\<close>.\<close>

fun digits :: "nat \<Rightarrow> string" where
  "digits n =
     (if n < 10 then [''0123456789'' ! n]
      else digits (n div 10) @ [''0123456789'' ! (n mod 10)])"

declare digits.simps [simp del]

definition zfill :: "nat \<Rightarrow> string \<Rightarrow> string" where
  "zfill w s = replicate (w - length s) (CHR ''0'') @ s"

definition fmt_05d :: "int \<Rightarrow> string" where
  "fmt_05d k =
     (if k < 0 then CHR ''-'' # zfill 4 (digits (nat (- k)))
      else zfill 5 (digits (nat k)))"

subsection \<open>Tables\<close>

text \<open>
  The kinds of pandas column dtype the source distinguishes, and pandas' predicates on
  them. \<open>DInt\<close> stands for the signed and unsigned integer dtypes of every width,
  \<open>DFloat\<close> for the floating-point ones, \<open>DObject\<close> for Python objects (strings).
\<close>

datatype dtype =
  DInt | DFloat | DBool | DComplex | DDatetime | DTimedelta | DCategory | DObject

fun is_integer_dtype :: "dtype \<Rightarrow> bool" where
  "is_integer_dtype DInt = True"
| "is_integer_dtype _ = False"

fun is_float_dtype :: "dtype \<Rightarrow> bool" where
  "is_float_dtype DFloat = True"
| "is_float_dtype _ = False"

fun is_bool_dtype :: "dtype \<Rightarrow> bool" where
  "is_bool_dtype DBool = True"
| "is_bool_dtype _ = False"

fun is_datetime64_any_dtype :: "dtype \<Rightarrow> bool" where
  "is_datetime64_any_dtype DDatetime = True"
| "is_datetime64_any_dtype _ = False"

fun is_numeric_dtype :: "dtype \<Rightarrow> bool" where
  "is_numeric_dtype DInt = True"
| "is_numeric_dtype DFloat = True"
| "is_numeric_dtype DBool = True"
| "is_numeric_dtype DComplex = True"
| "is_numeric_dtype _ = False"

text \<open>
  A cell of a table. A floating-point cell is kept as the pair of its mantissa and
  exponent and is never computed with; a timestamp is its count of nanoseconds.
\<close>

datatype cell =
  IntV int | FloatV int int | BoolV bool | StrV string | TimeV int | NullV

text \<open>
  A DataFrame: the named, typed columns in order, and the rows in order, each row
  holding one cell per column. \<open>len(df)\<close> is the number of rows.
\<close>

record table =
  header :: "(string \<times> dtype) list"
  body :: "cell list list"

definition df_len :: "table \<Rightarrow> int" where
  "df_len df = int (length (body df))"

definition iloc_slice :: "table \<Rightarrow> int \<Rightarrow> int \<Rightarrow> table" where
  "iloc_slice df i j = df\<lparr>body := py_slice (body df) i j\<rparr>"

subsection \<open>JSON and the file system\<close>

text \<open>
  A parsed JSON document. Numbers are the integers (a number with a fraction or an
  exponent is outside the model); an object keeps its members in file order.
\<close>

datatype json =
    JNull | JBool bool | JInt int | JStr string
  | JArr "json list" | JObj "(string \<times> json) list"

text \<open>
  \<open>d.get(key, default)\<close> on the dict that \<open>json.load\<close> builds from an object: a later
  member with the same key replaces an earlier one. On another JSON value the
  attribute \<open>get\<close> does not exist.
\<close>

definition dict_get :: "json \<Rightarrow> string \<Rightarrow> json \<Rightarrow> error + json" where
  "dict_get j k dflt =
     (case j of
        JObj kvs \<Rightarrow> (case map_of (rev kvs) k of None \<Rightarrow> Inr dflt | Some v \<Rightarrow> Inr v)
      | _ \<Rightarrow> Inl AttributeError)"

text \<open>
  The content of a file, named by what the library that reads it makes of it: a
  Parquet block holding a table, a zstd frame around some content, a JSON document,
  a CSV text or a JSON-lines text holding a table, or anything else.
\<close>

datatype blob =
    ParquetFile table | ZstdFile blob | JsonFile json
  | CsvFile table | JsonLinesFile table | OtherFile

text \<open>
  The file system: the directories, the files by path, and the number of temporary
  files created so far, from which the next temporary name is made.
\<close>

record fs =
  dirs :: "string list"
  files :: "(string \<times> blob) list"
  tmp_count :: nat

definition isdir :: "fs \<Rightarrow> string \<Rightarrow> bool" where
  "isdir s p = (p \<in> set (dirs s))"

definition exists_path :: "fs \<Rightarrow> string \<Rightarrow> bool" where
  "exists_path s p = (p \<in> set (dirs s) \<or> map_of (files s) p \<noteq> None)"

definition read_file :: "fs \<Rightarrow> string \<Rightarrow> error + blob" where
  "read_file s p =
     (if p \<in> set (dirs s) then Inl IsADirectoryError
      else case map_of (files s) p of None \<Rightarrow> Inl FileNotFoundError | Some b \<Rightarrow> Inr b)"

definition write_file :: "fs \<Rightarrow> string \<Rightarrow> blob \<Rightarrow> fs" where
  "write_file s p b = s\<lparr>files := AList.update p b (files s)\<rparr>"

definition remove_file :: "fs \<Rightarrow> string \<Rightarrow> fs" where
  "remove_file s p = s\<lparr>files := AList.delete p (files s)\<rparr>"

definition makedirs :: "fs \<Rightarrow> string \<Rightarrow> (error + unit) \<times> fs" where
  "makedirs s p =
     (if map_of (files s) p \<noteq> None then (Inl FileExistsError, s)
      else if p \<in> set (dirs s) then (Inr (), s)
      else (Inr (), s\<lparr>dirs := dirs s @ [p]\<rparr>))"

definition read_parquet :: "fs \<Rightarrow> string \<Rightarrow> error + table" where
  "read_parquet s p =
     (case read_file s p of
        Inl e \<Rightarrow> Inl e
      | Inr (ParquetFile t) \<Rightarrow> Inr t
      | Inr _ \<Rightarrow> Inl ArrowInvalid)"

definition read_csv :: "fs \<Rightarrow> string \<Rightarrow> error + table" where
  "read_csv s p =
     (case read_file s p of
        Inl e \<Rightarrow> Inl e
      | Inr (CsvFile t) \<Rightarrow> Inr t
      | Inr _ \<Rightarrow> Inl ParserError)"

definition read_json_lines :: "fs \<Rightarrow> string \<Rightarrow> error + table" where
  "read_json_lines s p =
     (case read_file s p of
        Inl e \<Rightarrow> Inl e
      | Inr (JsonLinesFile t) \<Rightarrow> Inr t
      | Inr _ \<Rightarrow> Inl ValueError)"

section \<open>convert_to_streaming_format\<close>

text \<open>
  The column types of the index: the chain of dtype tests of the source, in its
  order. The loop runs over the columns of the table; a table written to Parquet
  has one column per name, so \<open>df[col]\<close> is the column the loop is at.
\<close>

definition column_tag :: "dtype \<Rightarrow> string" where
  "column_tag d =
     (if is_integer_dtype d then ''int''
      else if is_float_dtype d then ''float''
      else if is_bool_dtype d then ''bool''
      else if is_datetime64_any_dtype d then ''datetime''
      else ''str'')"

definition infer_columns :: "table \<Rightarrow> (string \<times> string) list" where
  "infer_columns df =
     fold (\<lambda>(col, d) columns. AList.update col (column_tag d) columns) (header df) []"

text \<open>
  The shard loop, over the values \<open>i\<close> of \<open>range(0, len(df), chunk_size)\<close>: the state is
  the file system and the list of shard names so far.
\<close>

fun write_shards ::
  "string \<Rightarrow> string \<Rightarrow> int \<Rightarrow> table \<Rightarrow> int list \<Rightarrow> fs \<Rightarrow> string list \<Rightarrow> fs \<times> string list"
where
  "write_shards output_dir compression chunk_size df [] s shards = (s, shards)"
| "write_shards output_dir compression chunk_size df (i # rest) s shards =
     (let shard_df = iloc_slice df i (i + chunk_size);
          shard_name = ''shard.'' @ fmt_05d (i div chunk_size) @ ''.parquet'';
          shard_path = path_join output_dir shard_name;
          s1 = write_file s shard_path (ParquetFile shard_df)
      in if compression = ''zstd'' then
           (let s2 = write_file s1 (shard_path @ ''.zstd'') (ZstdFile (ParquetFile shard_df));
                s3 = remove_file s2 shard_path
            in write_shards output_dir compression chunk_size df rest s3
                 (shards @ [shard_name @ ''.zstd'']))
         else write_shards output_dir compression chunk_size df rest s1
                (shards @ [shard_name]))"

definition read_input :: "fs \<Rightarrow> string \<Rightarrow> error + table" where
  "read_input s input_path =
     (if endswith input_path ''.csv'' then read_csv s input_path
      else if endswith input_path ''.parquet'' then read_parquet s input_path
      else if endswith input_path ''.json'' then read_json_lines s input_path
      else Inl ValueError)"

definition make_index :: "table \<Rightarrow> (string \<times> string) list \<Rightarrow> string list \<Rightarrow> json" where
  "make_index df columns shards =
     JObj [(''samples'', JInt (df_len df)),
           (''columns'', JObj (map (\<lambda>(c, t). (c, JStr t)) columns)),
           (''shards'', JArr (map JStr shards))]"

definition convert_to_streaming_format ::
  "fs \<Rightarrow> string \<Rightarrow> string \<Rightarrow> string \<Rightarrow> int \<Rightarrow> (error + unit) \<times> fs"
where
  "convert_to_streaming_format s input_path output_dir compression chunk_size =
     (case makedirs s output_dir of
        (Inl e, s0) \<Rightarrow> (Inl e, s0)
      | (Inr _, s0) \<Rightarrow>
          (case read_input s0 input_path of
             Inl e \<Rightarrow> (Inl e, s0)
           | Inr df \<Rightarrow>
               (let columns = infer_columns df in
                case py_range 0 (df_len df) chunk_size of
                  Inl e \<Rightarrow> (Inl e, s0)
                | Inr starts \<Rightarrow>
                    (case write_shards output_dir compression chunk_size df starts s0 [] of
                       (s1, shards) \<Rightarrow>
                         (Inr (),
                          write_file s1 (path_join output_dir ''index.json'')
                            (JsonFile (make_index df columns shards)))))))"

section \<open>CustomStreamingDataset\<close>

datatype format = Csv | Parquet | CustomStreaming

text \<open>
  The attributes of a dataset object. \<open>ds_length\<close> (the attribute \<open>length\<close>), \<open>columns\<close> and \<open>shards\<close> hold whatever
  \<open>json.load\<close> gave for the custom format (Python checks no type when it stores them),
  so they are JSON values; for a CSV or Parquet file the length is an integer and the
  other three attributes are never set (here \<open>JNull\<close>) and never read. \<open>rng\<close> is the state
  of the object's own \<open>random.Random\<close>.
\<close>

record 'g dataset =
  data_path :: string
  batch_size :: int
  shuffle :: bool
  seed :: int
  chunk_size :: int
  format :: format
  index :: json
  ds_length :: json
  columns :: json
  shards :: json
  rng :: 'g

text \<open>A JSON value used where Python needs an integer (\<open>True\<close> and \<open>False\<close> are 1 and 0).\<close>

definition as_int :: "json \<Rightarrow> error + int" where
  "as_int j =
     (case j of JInt n \<Rightarrow> Inr n | JBool b \<Rightarrow> Inr (if b then 1 else 0) | _ \<Rightarrow> Inl TypeError)"

subsection \<open>_load_index and the length of a file\<close>

definition load_index :: "fs \<Rightarrow> string \<Rightarrow> error + json \<times> json \<times> json \<times> json" where
  "load_index s path =
     (case read_file s (path_join path ''index.json'') of
        Inl e \<Rightarrow> Inl e
      | Inr (JsonFile j) \<Rightarrow>
          (case dict_get j ''samples'' (JInt 0) of
             Inl e \<Rightarrow> Inl e
           | Inr len \<Rightarrow>
               (case dict_get j ''columns'' (JObj []) of
                  Inl e \<Rightarrow> Inl e
                | Inr cols \<Rightarrow>
                    (case dict_get j ''shards'' (JArr []) of
                       Inl e \<Rightarrow> Inl e
                     | Inr shs \<Rightarrow> Inr (j, len, cols, shs))))
      | Inr _ \<Rightarrow> Inl JSONDecodeError)"

text \<open>
  The number of lines of a CSV file less its header line, for a text with one line
  per record; other content under a \<open>.csv\<close> name is outside the model.
\<close>

definition get_csv_length :: "fs \<Rightarrow> string \<Rightarrow> error + int" where
  "get_csv_length s path =
     (case read_file s path of
        Inl e \<Rightarrow> Inl e
      | Inr (CsvFile t) \<Rightarrow> Inr (int (length (body t)) + 1 - 1)
      | Inr _ \<Rightarrow> Inl ParserError)"

definition get_parquet_length :: "fs \<Rightarrow> string \<Rightarrow> error + int" where
  "get_parquet_length s path =
     (case read_file s path of
        Inl e \<Rightarrow> Inl e
      | Inr (ParquetFile t) \<Rightarrow> Inr (int (length (body t)))
      | Inr _ \<Rightarrow> Inl ArrowInvalid)"

subsection \<open>__init__\<close>

text \<open>
  \<open>mk_rng\<close> is \<open>random.Random\<close>, from a seed to a generator state. \<open>fresh\<close> is the number
  that \<open>random.randint(0, 2**32 - 1)\<close> returns at this call: it comes from the global
  generator and is used only when no seed is given.
\<close>

definition init ::
  "(int \<Rightarrow> 'g) \<Rightarrow> int \<Rightarrow> fs \<Rightarrow> string \<Rightarrow> int \<Rightarrow> bool \<Rightarrow> int option \<Rightarrow> int \<Rightarrow> error + 'g dataset"
where
  "init mk_rng fresh s path bsz shuf sd csz =
     (let sd' = (case sd of Some v \<Rightarrow> v | None \<Rightarrow> fresh);
          ds = \<lparr>data_path = path, batch_size = bsz, shuffle = shuf, seed = sd',
                chunk_size = csz, format = CustomStreaming, index = JNull,
                ds_length = JNull, columns = JNull, shards = JNull, rng = mk_rng sd'\<rparr>
      in if isdir s path then
           (if exists_path s (path_join path ''index.json'') then
              (case load_index s path of
                 Inl e \<Rightarrow> Inl e
               | Inr (j, len, cols, shs) \<Rightarrow>
                   Inr (ds\<lparr>format := CustomStreaming, index := j, ds_length := len,
                           columns := cols, shards := shs\<rparr>))
            else Inl ValueError)
         else if endswith path ''.csv'' then
           (case get_csv_length s path of
              Inl e \<Rightarrow> Inl e
            | Inr n \<Rightarrow> Inr (ds\<lparr>format := Csv, ds_length := JInt n\<rparr>))
         else if endswith path ''.parquet'' then
           (case get_parquet_length s path of
              Inl e \<Rightarrow> Inl e
            | Inr n \<Rightarrow> Inr (ds\<lparr>format := Parquet, ds_length := JInt n\<rparr>))
         else Inl ValueError)"

subsection \<open>_load_chunk\<close>

text \<open>\<open>self.shards[0]\<close> on whatever value the attribute holds.\<close>

definition first_shard :: "json \<Rightarrow> error + json" where
  "first_shard j =
     (case j of
        JArr [] \<Rightarrow> Inl IndexError
      | JArr (x # _) \<Rightarrow> Inr x
      | JStr [] \<Rightarrow> Inl IndexError
      | JStr (c # _) \<Rightarrow> Inr (JStr [c])
      | JObj _ \<Rightarrow> Inl KeyError
      | _ \<Rightarrow> Inl TypeError)"

text \<open>
  \<open>tempfile.NamedTemporaryFile(delete=False, suffix='.parquet')\<close> with the data written
  to it: a new file under a name made from the counter.
\<close>

definition temp_name :: "nat \<Rightarrow> string" where
  "temp_name k = ''/tmp/tmp'' @ digits k @ ''.parquet''"

definition named_temporary_file :: "fs \<Rightarrow> blob \<Rightarrow> string \<times> fs" where
  "named_temporary_file s b =
     (temp_name (tmp_count s),
      (write_file s (temp_name (tmp_count s)) b)\<lparr>tmp_count := Suc (tmp_count s)\<rparr>)"

definition zstd_decompress :: "blob \<Rightarrow> error + blob" where
  "zstd_decompress b = (case b of ZstdFile c \<Rightarrow> Inr c | _ \<Rightarrow> Inl ZstdError)"

definition load_chunk :: "'g dataset \<Rightarrow> fs \<Rightarrow> int \<Rightarrow> int \<Rightarrow> (error + table) \<times> fs" where
  "load_chunk ds s start_idx end_idx =
     (case format ds of
        Csv \<Rightarrow>
          (if end_idx - start_idx < 0 then (Inl ValueError, s)
           else case read_csv s (data_path ds) of
                  Inl e \<Rightarrow> (Inl e, s)
                | Inr t \<Rightarrow>
                    (Inr (t\<lparr>body := take (nat (end_idx - start_idx))
                                      (drop (nat start_idx) (body t))\<rparr>), s))
      | Parquet \<Rightarrow> (read_parquet s (data_path ds), s)
      | CustomStreaming \<Rightarrow>
          (case first_shard (shards ds) of
             Inl e \<Rightarrow> (Inl e, s)
           | Inr (JStr shard) \<Rightarrow>
               (let shard_path = path_join (data_path ds) shard in
                if endswith shard_path ''.zstd'' then
                  (case read_file s shard_path of
                     Inl e \<Rightarrow> (Inl e, s)
                   | Inr compressed \<Rightarrow>
                       (case zstd_decompress compressed of
                          Inl e \<Rightarrow> (Inl e, s)
                        | Inr decompressed_data \<Rightarrow>
                            (case named_temporary_file s decompressed_data of
                               (temp_path, s1) \<Rightarrow>
                                 (case read_parquet s1 temp_path of
                                    Inl e \<Rightarrow> (Inl e, s1)
                                  | Inr df \<Rightarrow> (Inr df, remove_file s1 temp_path)))))
                else (read_parquet s shard_path, s))
           | Inr _ \<Rightarrow> (Inl TypeError, s)))"

subsection \<open>__iter__\<close>

text \<open>
  \<open>random.shuffle\<close>: for \<open>i\<close> from the last position down to 1, draw \<open>j\<close> below \<open>i + 1\<close> and
  exchange the entries at \<open>i\<close> and \<open>j\<close>. \<open>randbelow\<close> is the generator's method: from a
  state and a bound to a number below the bound and the next state.
\<close>

fun shuffle_steps :: "('g \<Rightarrow> nat \<Rightarrow> nat \<times> 'g) \<Rightarrow> nat list \<Rightarrow> 'g \<Rightarrow> 'a list \<Rightarrow> 'a list \<times> 'g" where
  "shuffle_steps randbelow [] g x = (x, g)"
| "shuffle_steps randbelow (i # rest) g x =
     (case randbelow g (i + 1) of
        (j, g') \<Rightarrow> shuffle_steps randbelow rest g' (x[i := x ! j, j := x ! i]))"

definition random_shuffle :: "('g \<Rightarrow> nat \<Rightarrow> nat \<times> 'g) \<Rightarrow> 'g \<Rightarrow> 'a list \<Rightarrow> 'a list \<times> 'g" where
  "random_shuffle randbelow g x = shuffle_steps randbelow (rev [1..<length x]) g x"

text \<open>
  A column of a batch: \<open>FloatTensor vs\<close> is \<open>torch.tensor(vs, dtype=torch.float32)\<close>, the
  32-bit floating-point tensor made from the stored values \<open>vs\<close>; \<open>RawArray vs\<close> is the
  array of the values as they are.
\<close>

datatype tensor = FloatTensor "cell list" | RawArray "cell list"

type_synonym batch = "(string \<times> tensor) list"

fun tensor_values :: "tensor \<Rightarrow> cell list" where
  "tensor_values (FloatTensor vs) = vs"
| "tensor_values (RawArray vs) = vs"

text \<open>The values of the column at position \<open>k\<close>; a row too short reads as missing.\<close>

definition column_values :: "table \<Rightarrow> nat \<Rightarrow> cell list" where
  "column_values df k = map (\<lambda>r. if k < length r then r ! k else NullV) (body df)"

fun iloc_list :: "'a list \<Rightarrow> int list \<Rightarrow> error + 'a list" where
  "iloc_list xs [] = Inr []"
| "iloc_list xs (i # rest) =
     (case iloc_at xs i of
        Inl e \<Rightarrow> Inl e
      | Inr v \<Rightarrow> (case iloc_list xs rest of Inl e \<Rightarrow> Inl e | Inr vs \<Rightarrow> Inr (v # vs)))"

text \<open>
  The loop over the columns of the loaded chunk that fills one batch; \<open>k\<close> is the
  position of the column the loop is at.
\<close>

fun batch_columns ::
  "table \<Rightarrow> int list \<Rightarrow> (string \<times> dtype) list \<Rightarrow> nat \<Rightarrow> batch \<Rightarrow> error + batch"
where
  "batch_columns chunk_data batch_indices [] k b = Inr b"
| "batch_columns chunk_data batch_indices ((col, d) # rest) k b =
     (case iloc_list (column_values chunk_data k) batch_indices of
        Inl e \<Rightarrow> Inl e
      | Inr col_data \<Rightarrow>
          batch_columns chunk_data batch_indices rest (Suc k)
            (AList.update col
               (if is_numeric_dtype d then FloatTensor col_data else RawArray col_data) b))"

text \<open>
  The generator yields batches one by one and may raise after some of them: its
  run is the list of the batches yielded and the exception that ended it, if any.
  The inner loop runs over the values of \<open>range(0, len(chunk_indices), batch_size)\<close>.
\<close>

fun chunk_batches :: "table \<Rightarrow> int list \<Rightarrow> int \<Rightarrow> int list \<Rightarrow> batch list \<times> error option" where
  "chunk_batches chunk_data chunk_indices bsz [] = ([], None)"
| "chunk_batches chunk_data chunk_indices bsz (batch_start # rest) =
     (let batch_end = min (batch_start + bsz) (int (length chunk_indices));
          batch_indices = py_slice chunk_indices batch_start batch_end
      in case batch_columns chunk_data batch_indices (header chunk_data) 0 [] of
           Inl e \<Rightarrow> ([], Some e)
         | Inr b \<Rightarrow>
             (case chunk_batches chunk_data chunk_indices bsz rest of
                (bs, err) \<Rightarrow> (b # bs, err)))"

fun list_min :: "int list \<Rightarrow> error + int" where
  "list_min [] = Inl ValueError"
| "list_min (x # xs) = Inr (fold min xs x)"

fun list_max :: "int list \<Rightarrow> error + int" where
  "list_max [] = Inl ValueError"
| "list_max (x # xs) = Inr (fold max xs x)"

text \<open>The outer loop, over the values of \<open>range(0, self.length, self.chunk_size)\<close>.\<close>

fun iter_chunks ::
  "'g dataset \<Rightarrow> int \<Rightarrow> int list \<Rightarrow> int list \<Rightarrow> fs \<Rightarrow> (batch list \<times> error option) \<times> fs"
where
  "iter_chunks ds n indices [] s = (([], None), s)"
| "iter_chunks ds n indices (chunk_start # rest) s =
     (let chunk_end = min (chunk_start + chunk_size ds) n;
          chunk_indices = py_slice indices chunk_start chunk_end
      in case list_min chunk_indices of
           Inl e \<Rightarrow> (([], Some e), s)
         | Inr lo \<Rightarrow>
        (case list_max chunk_indices of
           Inl e \<Rightarrow> (([], Some e), s)
         | Inr hi \<Rightarrow>
        (case load_chunk ds s lo (hi + 1) of
           (Inl e, s1) \<Rightarrow> (([], Some e), s1)
         | (Inr chunk_data, s1) \<Rightarrow>
        (case py_range 0 (int (length chunk_indices)) (batch_size ds) of
           Inl e \<Rightarrow> (([], Some e), s1)
         | Inr batch_starts \<Rightarrow>
        (case chunk_batches chunk_data chunk_indices (batch_size ds) batch_starts of
           (bs, Some e) \<Rightarrow> ((bs, Some e), s1)
         | (bs, None) \<Rightarrow>
             (case iter_chunks ds n indices rest s1 of
                ((bs', err), s2) \<Rightarrow> ((bs @ bs', err), s2)))))))"

text \<open>
  One run of the generator to its end: the batches and the exception, the dataset
  object with its generator state after the shuffle, and the file system.
\<close>

definition iter ::
  "('g \<Rightarrow> nat \<Rightarrow> nat \<times> 'g) \<Rightarrow> 'g dataset \<Rightarrow> fs
     \<Rightarrow> (batch list \<times> error option) \<times> 'g dataset \<times> fs"
where
  "iter randbelow ds s =
     (case as_int (ds_length ds) of
        Inl e \<Rightarrow> (([], Some e), ds, s)
      | Inr n \<Rightarrow>
          (let indices0 = map int [0..<nat n];
               shuffled = (if shuffle ds then random_shuffle randbelow (rng ds) indices0
                           else (indices0, rng ds));
               ds' = ds\<lparr>rng := snd shuffled\<rparr>
           in case py_range 0 n (chunk_size ds) of
                Inl e \<Rightarrow> (([], Some e), ds', s)
              | Inr chunk_starts \<Rightarrow>
                  (case iter_chunks ds' n (fst shuffled) chunk_starts s of
                     (r, s') \<Rightarrow> (r, ds', s'))))"

subsection \<open>__getitem__\<close>

text \<open>The loop over the columns that fills the sample.\<close>

fun sample_columns ::
  "table \<Rightarrow> int \<Rightarrow> (string \<times> dtype) list \<Rightarrow> nat \<Rightarrow> (string \<times> cell) list
     \<Rightarrow> error + (string \<times> cell) list"
where
  "sample_columns chunk_data pos [] k sample = Inr sample"
| "sample_columns chunk_data pos ((col, d) # rest) k sample =
     (case iloc_at (column_values chunk_data k) pos of
        Inl e \<Rightarrow> Inl e
      | Inr v \<Rightarrow> sample_columns chunk_data pos rest (Suc k) (AList.update col v sample))"

definition getitem ::
  "'g dataset \<Rightarrow> fs \<Rightarrow> int \<Rightarrow> (error + (string \<times> cell) list) \<times> fs"
where
  "getitem ds s idx =
     (if idx < 0 then (Inl IndexError, s)
      else case as_int (ds_length ds) of
        Inl e \<Rightarrow> (Inl e, s)
      | Inr n \<Rightarrow>
          (if idx \<ge> n then (Inl IndexError, s)
           else if chunk_size ds = 0 then (Inl ZeroDivisionError, s)
           else
             (let chunk_start = (idx div chunk_size ds) * chunk_size ds;
                  chunk_end = min (chunk_start + chunk_size ds) n
              in case load_chunk ds s chunk_start chunk_end of
                   (Inl e, s1) \<Rightarrow> (Inl e, s1)
                 | (Inr chunk_data, s1) \<Rightarrow>
                     (sample_columns chunk_data (idx - chunk_start) (header chunk_data) 0 [],
                      s1))))"

section \<open>Definitions used to state the properties\<close>



text \<open>
  The name the shard loop gives to shard number \<open>k\<close> in the index, the content it
  leaves in that file, and the effect of one pass of the loop on the file system.
  \<open>dir_prefix d\<close> is what \<open>os.path.join(d, name)\<close> puts before a relative \<open>name\<close>.
\<close>

definition shard_file :: "string \<Rightarrow> int \<Rightarrow> string" where
  "shard_file compression k =
     ''shard.'' @ fmt_05d k @ ''.parquet'' @ (if compression = ''zstd'' then ''.zstd'' else [])"

definition shard_blob :: "string \<Rightarrow> table \<Rightarrow> blob" where
  "shard_blob compression t =
     (if compression = ''zstd'' then ZstdFile (ParquetFile t) else ParquetFile t)"

definition dir_prefix :: "string \<Rightarrow> string" where
  "dir_prefix d = (if d = [] \<or> last d = CHR ''/'' then d else d @ ''/'')"

definition shard_step :: "string \<Rightarrow> string \<Rightarrow> int \<Rightarrow> table \<Rightarrow> int \<Rightarrow> fs \<Rightarrow> fs" where
  "shard_step out codec c df i s =
     (let p = dir_prefix out @ ''shard.'' @ fmt_05d (i div c) @ ''.parquet'';
          b = ParquetFile (iloc_slice df i (i + c))
      in if codec = ''zstd''
         then remove_file (write_file (write_file s p b) (p @ ''.zstd'') (ZstdFile b)) p
         else write_file s p b)"

text \<open>The content of the file \<open>name\<close> of directory \<open>dir\<close>, if there is one.\<close>

definition stored_blob :: "fs \<Rightarrow> string \<Rightarrow> string \<Rightarrow> blob option" where
  "stored_blob s dir name = map_of (files s) (path_join dir name)"

text \<open>
  A table of 10 rows and two columns, in a Parquet file of an otherwise empty file
  system: the data of the examples below.
\<close>

definition example_table :: table where
  "example_table =
     \<lparr>header = [(''id'', DInt), (''name'', DObject)],
      body = map (\<lambda>i. [IntV (int i), StrV (digits i)]) [0..<10]\<rparr>"

definition example_fs :: fs where
  "example_fs =
     \<lparr>dirs = [], files = [(''in.parquet'', ParquetFile example_table)], tmp_count = 0\<rparr>"

text \<open>
  Following the spec (section 6): the type of a column in the manifest is one of
  \<open>int\<close>, \<open>float\<close>, \<open>bool\<close>, \<open>str\<close>.
\<close>

definition manifest_tag :: "string \<Rightarrow> bool" where
  "manifest_tag t = (t \<in> set [''int'', ''float'', ''bool'', ''str''])"

text \<open>A table with a timestamp column.\<close>

definition timestamp_table :: table where
  "timestamp_table =
     \<lparr>header = [(''id'', DInt), (''when'', DDatetime)], body = [[IntV 1, TimeV 0]]\<rparr>"

text \<open>A directory whose index file is the empty JSON object.\<close>

definition bare_index_fs :: fs where
  "bare_index_fs =
     \<lparr>dirs = [''data''], files = [(''data/index.json'', JsonFile (JObj []))], tmp_count = 0\<rparr>"

text \<open>The member \<open>k\<close> of a JSON object (the last one of that name), or the default.\<close>

definition member_or :: "(string \<times> json) list \<Rightarrow> string \<Rightarrow> json \<Rightarrow> json" where
  "member_or kvs k dflt = (case map_of (rev kvs) k of None \<Rightarrow> dflt | Some v \<Rightarrow> v)"

text \<open>
  A small generator to run the examples with: a linear congruential state, seeded
  with the absolute value of the seed.
\<close>

definition lcg_seed :: "int \<Rightarrow> int" where
  "lcg_seed sd = \<bar>sd\<bar> mod 65537"

definition lcg_randbelow :: "int \<Rightarrow> nat \<Rightarrow> nat \<times> int" where
  "lcg_randbelow g n = (nat (g mod int n), (75 * g + 74) mod 65537)"

text \<open>
  The example table converted with \<open>chunk_size = 4\<close> and no compression (three shards
  of 4, 4 and 2 rows), and the dataset object that \<open>__init__\<close> builds on the result
  with \<open>batch_size = 3\<close>, \<open>shuffle = False\<close>, \<open>seed = 0\<close> and \<open>chunk_size = 4\<close>.
\<close>

definition example_store :: fs where
  "example_store =
     snd (convert_to_streaming_format example_fs ''in.parquet'' ''out'' ''none'' 4)"

definition example_index :: json where
  "example_index =
     JObj [(''samples'', JInt 10),
           (''columns'', JObj [(''id'', JStr ''int''), (''name'', JStr ''str'')]),
           (''shards'', JArr [JStr ''shard.00000.parquet'', JStr ''shard.00001.parquet'',
                              JStr ''shard.00002.parquet''])]"

definition example_ds :: "int dataset" where
  "example_ds =
     \<lparr>data_path = ''out'', batch_size = 3, shuffle = False, seed = 0, chunk_size = 4,
      format = CustomStreaming, index = example_index, ds_length = JInt 10,
      columns = JObj [(''id'', JStr ''int''), (''name'', JStr ''str'')],
      shards = JArr [JStr ''shard.00000.parquet'', JStr ''shard.00001.parquet'',
                     JStr ''shard.00002.parquet''],
      rng = lcg_seed 0\<rparr>"

text \<open>
  A dataset of one compressed shard whose decompressed content is not a Parquet
  block, and the dataset object on it.
\<close>

definition corrupt_fs :: fs where
  "corrupt_fs =
     \<lparr>dirs = [''data''],
      files = [(''data/index.json'',
                JsonFile (JObj [(''samples'', JInt 1), (''columns'', JObj []),
                                (''shards'', JArr [JStr ''shard.00000.parquet.zstd''])])),
               (''data/shard.00000.parquet.zstd'', ZstdFile OtherFile)],
      tmp_count = 0\<rparr>"

definition corrupt_ds :: "int dataset" where
  "corrupt_ds =
     \<lparr>data_path = ''data'', batch_size = 1, shuffle = False, seed = 0, chunk_size = 1,
      format = CustomStreaming,
      index = JObj [(''samples'', JInt 1), (''columns'', JObj []),
                    (''shards'', JArr [JStr ''shard.00000.parquet.zstd''])],
      ds_length = JInt 1, columns = JObj [],
      shards = JArr [JStr ''shard.00000.parquet.zstd''], rng = lcg_seed 0\<rparr>"

text \<open>The column of a batch made from the values \<open>vs\<close> of a column of dtype \<open>d\<close>.\<close>

definition make_tensor :: "dtype \<Rightarrow> cell list \<Rightarrow> tensor" where
  "make_tensor d vs = (if is_numeric_dtype d then FloatTensor vs else RawArray vs)"



text \<open>
  A list cut into consecutive windows of \<open>c\<close> entries, the last one possibly shorter.
  \<open>batch_plan\<close> is what the two loops of \<open>__iter__\<close> select: the permutation cut into
  windows of \<open>chunk_size\<close> entries, each window cut into batches of \<open>batch_size\<close> entries.
  \<open>rows_match b idxs\<close>: every column of the batch \<open>b\<close> has one value per selected index.
\<close>

definition chunks_of :: "nat \<Rightarrow> 'a list \<Rightarrow> 'a list list" where
  "chunks_of c xs = map (\<lambda>k. take c (drop (k * c) xs)) [0..<(length xs + c - 1) div c]"



text \<open>The number of rows of a batch, read off its first column.\<close>

definition batch_rows :: "batch \<Rightarrow> nat" where
  "batch_rows b = (case b of [] \<Rightarrow> 0 | cv # _ \<Rightarrow> length (tensor_values (snd cv)))"


text \<open>
  The batch that the column loop makes from the table \<open>t\<close> for the selected indices
  \<open>idxs\<close> when they are all rows of \<open>t\<close>: every column of \<open>t\<close>, in order, with the values
  of the selected rows.
\<close>

definition expected_batch :: "table \<Rightarrow> int list \<Rightarrow> batch" where
  "expected_batch t idxs =
     map (\<lambda>(k, (col, d)). (col, make_tensor d (map (\<lambda>i. column_values t k ! nat i) idxs)))
       (zip [0..<length (header t)] (header t))"

text \<open>
  No directory sits where the index file, a shard file or a temporary file goes.
\<close>

definition dirs_clear :: "fs \<Rightarrow> string \<Rightarrow> bool" where
  "dirs_clear s out =
     list_all (\<lambda>d. d \<noteq> dir_prefix out @ ''index.json''
                 \<and> take (length (dir_prefix out @ ''shard.'')) d \<noteq> dir_prefix out @ ''shard.''
                 \<and> take 8 d \<noteq> ''/tmp/tmp'') (dirs s)"


section \<open>Properties\<close>

subsection \<open>Shard names, ranges and files\<close>






lemma range_up_eq:
  "0 < c \<Longrightarrow> range_up i n c = map (\<lambda>k. i + int k * c) [0..<nat ((n - i + c - 1) div c)]"
proof (induction i n c rule: range_up.induct)
  case (1 i stop step)
  show ?case
  proof (cases "i < stop")
    case True
    define m where "m = nat ((stop - (i + step) + step - 1) div step)"
    have d: "(stop - i + step - 1) div step = (stop - (i + step) + step - 1) div step + 1"
      using 1(2) div_add_self2[of step "stop - (i + step) + step - 1"] by (simp add: algebra_simps)
    have nn: "0 \<le> (stop - (i + step) + step - 1) div step"
      using True 1(2) by (simp add: pos_imp_zdiv_nonneg_iff)
    from d nn have e: "nat ((stop - i + step - 1) div step) = Suc m"
      by (simp add: m_def)
    have ih: "range_up (i + step) stop step = map (\<lambda>k. (i + step) + int k * step) [0..<m]"
      using 1 True by (simp add: m_def)
    have "map (\<lambda>k. i + int k * step) [0..<Suc m]
        = i # map (\<lambda>k. (i + step) + int k * step) [0..<m]"
      by (simp add: upt_conv_Cons map_Suc_upt[symmetric] algebra_simps del: upt_Suc)
    then show ?thesis
      using True 1(2) ih e by (subst range_up.simps) simp
  next
    case False
    then have "(stop - i + step - 1) div step \<le> 0"
      using 1(2) by (cases "0 \<le> stop - i + step - 1") (simp_all add: div_pos_pos_trivial div_nonpos_pos_le0)
    with False show ?thesis by (subst range_up.simps) simp
  qed
qed


lemma path_join_rel: "n \<noteq> [] \<Longrightarrow> hd n \<noteq> CHR ''/'' \<Longrightarrow> path_join d n = dir_prefix d @ n"
  by (simp add: path_join_def dir_prefix_def)

lemma path_join_shard: "path_join d (shard_file codec k) = dir_prefix d @ shard_file codec k"
  by (simp add: path_join_rel shard_file_def)

lemma path_join_index: "path_join d ''index.json'' = dir_prefix d @ ''index.json''"
  by (simp add: path_join_rel)

lemma map_of_write_file [simp]:
  "map_of (files (write_file s p b)) = (map_of (files s))(p \<mapsto> b)"
  by (simp add: write_file_def update_conv')

lemma map_of_remove_file [simp]:
  "map_of (files (remove_file s p)) = (map_of (files s))(p := None)"
  by (simp add: remove_file_def delete_conv')

lemma dirs_write_file [simp]: "dirs (write_file s p b) = dirs s"
  by (simp add: write_file_def)

lemma dirs_remove_file [simp]: "dirs (remove_file s p) = dirs s"
  by (simp add: remove_file_def)

lemma tmp_write_file [simp]: "tmp_count (write_file s p b) = tmp_count s"
  by (simp add: write_file_def)

lemma tmp_remove_file [simp]: "tmp_count (remove_file s p) = tmp_count s"
  by (simp add: remove_file_def)


lemma write_shards_Cons:
  "write_shards out codec c df (i # rest) s acc
     = write_shards out codec c df rest (shard_step out codec c df i s)
         (acc @ [shard_file codec (i div c)])"
  by (simp add: Let_def shard_step_def shard_file_def path_join_rel)

lemma shard_step_dirs [simp]: "dirs (shard_step out codec c df i s) = dirs s"
  by (simp add: shard_step_def Let_def)

lemma shard_step_tmp [simp]: "tmp_count (shard_step out codec c df i s) = tmp_count s"
  by (simp add: shard_step_def Let_def)



lemma write_shards_names:
  "snd (write_shards out codec c df starts s acc)
     = acc @ map (\<lambda>i. shard_file codec (i div c)) starts"
  by (induction starts arbitrary: s acc) (simp_all add: write_shards_Cons del: write_shards.simps(2))

lemma write_shards_dirs:
  "dirs (fst (write_shards out codec c df starts s acc)) = dirs s"
  by (induction starts arbitrary: s acc) (simp_all add: write_shards_Cons del: write_shards.simps(2))

lemma write_shards_tmp:
  "tmp_count (fst (write_shards out codec c df starts s acc)) = tmp_count s"
  by (induction starts arbitrary: s acc) (simp_all add: write_shards_Cons del: write_shards.simps(2))




lemma slice_chunk:
  assumes "0 < c"
  shows "py_slice xs (int k * c) (int k * c + c) = take (nat c) (drop (k * nat c) xs)"
proof -
  have a: "nat (int k * c) = k * nat c" using assms by (simp add: nat_mult_distrib)
  have b: "nat (int k * c + c) = k * nat c + nat c"
    using assms by (simp add: nat_add_distrib nat_mult_distrib)
  have nn: "\<not> int k * c < 0" "\<not> int k * c + c < 0" using assms by (simp_all add: add_nonneg_pos not_less)
  show ?thesis
  proof (cases "k * nat c \<le> length xs")
    case True
    then show ?thesis using nn
      by (simp add: py_slice_def clamp_index_def a b Let_def min_def)
  next
    case False
    then show ?thesis using nn
      by (simp add: py_slice_def clamp_index_def a b Let_def min_def)
  qed
qed





subsection \<open>What the conversion leaves in the file system\<close>

lemma makedirs_ok:
  assumes "makedirs s p = (Inr (), s0)"
  shows "p \<in> set (dirs s0)" and "files s0 = files s" and "tmp_count s0 = tmp_count s"
    and "set (dirs s0) = insert p (set (dirs s))"
  using assms by (auto simp: makedirs_def split: if_splits)

lemma convert_unfold:
  assumes c: "0 < c"
    and mk: "makedirs s out = (Inr (), s0)"
    and inp: "read_input s0 input_path = Inr df"
  shows "convert_to_streaming_format s input_path out codec c
      = (Inr (),
         write_file
           (fst (write_shards out codec c df
                   (map (\<lambda>k. int k * c) [0..<nat ((int (length (body df)) + c - 1) div c)]) s0 []))
           (path_join out ''index.json'')
           (JsonFile (make_index df (infer_columns df)
              (map (\<lambda>k. shard_file codec (int k))
                 [0..<nat ((int (length (body df)) + c - 1) div c)]))))"
proof -
  define m where "m = nat ((int (length (body df)) + c - 1) div c)"
  define starts where "starts = map (\<lambda>k. int k * c) [0..<m]"
  have rng: "py_range 0 (df_len df) c = Inr starts"
    using c by (simp add: py_range_def range_up_eq df_len_def starts_def m_def)
  have dv: "\<And>k. (int k * c) div c = int k" using c by simp
  have nm: "snd (write_shards out codec c df starts s0 [])
          = map (\<lambda>k. shard_file codec (int k)) [0..<m]"
    by (simp add: write_shards_names starts_def dv comp_def)
  obtain s1 ns where ws: "write_shards out codec c df starts s0 [] = (s1, ns)"
    by (cases "write_shards out codec c df starts s0 []")
  with nm have ns: "ns = map (\<lambda>k. shard_file codec (int k)) [0..<m]" by simp
  show ?thesis
    unfolding m_def[symmetric] starts_def[symmetric]
    by (simp add: convert_to_streaming_format_def mk inp rng Let_def ws ns)
qed

lemma convert_dirs:
  assumes "0 < c" "makedirs s out = (Inr (), s0)" "read_input s0 input_path = Inr df"
  shows "dirs (snd (convert_to_streaming_format s input_path out codec c)) = dirs s0"
    and "tmp_count (snd (convert_to_streaming_format s input_path out codec c)) = tmp_count s0"
  by (simp_all add: convert_unfold[OF assms] write_shards_dirs write_shards_tmp)

lemma convert_index:
  assumes "0 < c" "makedirs s out = (Inr (), s0)" "read_input s0 input_path = Inr df"
  shows "stored_blob (snd (convert_to_streaming_format s input_path out codec c)) out ''index.json''
     = Some (JsonFile (make_index df (infer_columns df)
              (map (\<lambda>k. shard_file codec (int k))
                 [0..<nat ((int (length (body df)) + c - 1) div c)])))"
  by (simp add: convert_unfold[OF assms] stored_blob_def)



subsection \<open>The shard writer\<close>





subsection \<open>Schema inference\<close>

text \<open>
  Claim C7, as stated, fails: a timestamp column gets the tag \<open>datetime\<close>, which is
  none of the four manifest types.
\<close>

theorem schema_tags_counterexample:
  "\<not> list_all manifest_tag (map snd (infer_columns timestamp_table))"
  by code_simp

lemma update_fresh: "k \<notin> fst ` set al \<Longrightarrow> AList.update k v al = al @ [(k, v)]"
  by (induction al) auto

lemma infer_fold:
  "distinct (map fst acc @ map fst hdr) \<Longrightarrow>
   fold (\<lambda>(col, d) columns. AList.update col (column_tag d) columns) hdr acc
     = acc @ map (\<lambda>(col, d). (col, column_tag d)) hdr"
proof (induction hdr arbitrary: acc)
  case Nil
  then show ?case by simp
next
  case (Cons a hdr)
  obtain col d where a: "a = (col, d)" by (cases a)
  from Cons.prems a have fr: "col \<notin> fst ` set acc" by auto
  from Cons.prems a have "distinct (map fst (acc @ [(col, column_tag d)]) @ map fst hdr)" by auto
  from Cons.IH[OF this] show ?case by (simp add: a update_fresh[OF fr])
qed

lemma column_tag_cases:
  "column_tag d \<in> set [''int'', ''float'', ''bool'', ''datetime'', ''str'']"
  by (simp add: column_tag_def)

text \<open>
  Claim C7, amended. For a table whose column names are distinct, the inferred
  columns are the table's columns in their order, none dropped, each with exactly
  one of the five tags \<open>int\<close>, \<open>float\<close>, \<open>bool\<close>, \<open>datetime\<close>, \<open>str\<close>: integer, floating-point
  and boolean columns get \<open>int\<close>, \<open>float\<close>, \<open>bool\<close>, a timestamp column gets \<open>datetime\<close>,
  and every other dtype defaults to \<open>str\<close>.
\<close>

theorem schema_inference_tags:
  assumes "distinct (map fst (header df))"
  shows "infer_columns df = map (\<lambda>(col, d). (col, column_tag d)) (header df)
     \<and> map fst (infer_columns df) = map fst (header df)
     \<and> list_all (\<lambda>t. t \<in> set [''int'', ''float'', ''bool'', ''datetime'', ''str''])
          (map snd (infer_columns df))
     \<and> column_tag DInt = ''int'' \<and> column_tag DFloat = ''float'' \<and> column_tag DBool = ''bool''
     \<and> column_tag DDatetime = ''datetime''
     \<and> column_tag DObject = ''str'' \<and> column_tag DCategory = ''str''
     \<and> column_tag DTimedelta = ''str'' \<and> column_tag DComplex = ''str''"
proof -
  have e: "infer_columns df = map (\<lambda>(col, d). (col, column_tag d)) (header df)"
    using infer_fold[of "[]" "header df"] assms by (simp add: infer_columns_def)
  have f: "map fst (infer_columns df) = map fst (header df)"
    by (simp add: e comp_def case_prod_unfold)
  have g: "list_all (\<lambda>t. t \<in> set [''int'', ''float'', ''bool'', ''datetime'', ''str''])
          (map snd (infer_columns df))"
    unfolding e list_all_iff using column_tag_cases by (auto simp del: set_simps)
  show ?thesis using e f g by (simp add: column_tag_def)
qed

theorem schema_inference_tags_witness:
  "distinct (map fst (header timestamp_table))
   \<and> infer_columns timestamp_table = [(''id'', ''int''), (''when'', ''datetime'')]"
proof -
  have h: "distinct (map fst (header timestamp_table))" by code_simp
  from schema_inference_tags[OF h] h show ?thesis
    by (simp add: timestamp_table_def column_tag_def)
qed


subsection \<open>Loading the index\<close>

text \<open>
  Claim C6, as stated, fails: an index file that is the empty JSON object has none
  of the three fields, and loading it succeeds with the defaults 0, \<open>{}\<close> and \<open>[]\<close>.
\<close>

theorem load_index_counterexample:
  "load_index bare_index_fs ''data'' = Inr (JObj [], JInt 0, JObj [], JArr [])"
  by code_simp

text \<open>
  Claim C6, amended. Whenever the index file holds a JSON object, loading succeeds:
  each of \<open>samples\<close>, \<open>columns\<close>, \<open>shards\<close> is the member of that name as it is in the
  file, of whatever type, and the default 0, \<open>{}\<close> or \<open>[]\<close> when the member is absent.
\<close>

theorem load_index_defaults:
  assumes "read_file s (path_join path ''index.json'') = Inr (JsonFile (JObj kvs))"
  shows "load_index s path =
           Inr (JObj kvs, member_or kvs ''samples'' (JInt 0),
                member_or kvs ''columns'' (JObj []), member_or kvs ''shards'' (JArr []))"
  using assms by (simp add: load_index_def dict_get_def member_or_def split: option.splits)

theorem load_index_defaults_witness:
  "read_file bare_index_fs (path_join ''data'' ''index.json'') = Inr (JsonFile (JObj []))
   \<and> load_index bare_index_fs ''data'' =
           Inr (JObj [], member_or [] ''samples'' (JInt 0),
                member_or [] ''columns'' (JObj []), member_or [] ''shards'' (JArr []))"
proof -
  have h: "read_file bare_index_fs (path_join ''data'' ''index.json'') = Inr (JsonFile (JObj []))"
    by code_simp
  from load_index_defaults[OF h] h show ?thesis by simp
qed


subsection \<open>Loading a chunk and random access\<close>

text \<open>
  For the custom format \<open>_load_chunk\<close> never looks at the range it is given: it reads
  the first shard of the index, whatever rows are asked for.
\<close>

lemma load_chunk_range_irrelevant:
  "format ds = CustomStreaming \<Longrightarrow> load_chunk ds s a b = load_chunk ds s a' b'"
  by (simp add: load_chunk_def)

text \<open>
  Claim C1 (the code departs from it). The example table of 10 rows is converted
  with \<open>chunk_size = 4\<close>; rows 8 and 9 are in the third shard. Asked for the range from
  8 to 10, \<open>_load_chunk\<close> returns the four rows 0 to 3 of the first shard.
\<close>

theorem load_chunk_first_shard_only:
  "init lcg_seed 0 example_store ''out'' 3 False (Some 0) 4 = Inr example_ds
   \<and> stored_blob example_store ''out'' ''shard.00002.parquet''
       = Some (ParquetFile (example_table\<lparr>body := [[IntV 8, StrV ''8''], [IntV 9, StrV ''9'']]\<rparr>))
   \<and> fst (load_chunk example_ds example_store 8 10)
       = Inr (example_table\<lparr>body := [[IntV 0, StrV ''0''], [IntV 1, StrV ''1''],
                                       [IntV 2, StrV ''2''], [IntV 3, StrV ''3'']]\<rparr>)"
  by code_simp

text \<open>
  The range check of \<open>__getitem__\<close>: an index below 0 or not below the sample count
  raises IndexError, before anything is read.
\<close>

lemma getitem_out_of_range:
  "as_int (ds_length ds) = Inr n \<Longrightarrow> idx < 0 \<or> n \<le> idx \<Longrightarrow> getitem ds s idx = (Inl IndexError, s)"
  by (auto simp: getitem_def)

text \<open>
  Claim C5 (the code departs from it). On the same dataset of 10 samples,
  \<open>get(9)\<close> passes the range check and loads the window from 8 to 10, gets the first
  shard instead, and returns its row at offset 1: the second row written, not the
  last one.
\<close>

theorem getitem_last_row_wrong:
  "init lcg_seed 0 example_store ''out'' 3 False (Some 0) 4 = Inr example_ds
   \<and> body example_table ! 9 = [IntV 9, StrV ''9'']
   \<and> fst (getitem example_ds example_store 9) = Inr [(''id'', IntV 1), (''name'', StrV ''1'')]"
  by code_simp

text \<open>
  Claim C9 (the code departs from it). The shard decompresses, but what comes out
  is not a Parquet block: \<open>read_parquet\<close> raises, the call to \<open>os.unlink\<close> is never
  reached, and the temporary file, which did not exist before, is still there.
\<close>

theorem temp_file_left_behind:
  "init lcg_seed 0 corrupt_fs ''data'' 1 False (Some 0) 1 = Inr corrupt_ds
   \<and> fst (load_chunk corrupt_ds corrupt_fs 0 1) = Inl ArrowInvalid
   \<and> map_of (files corrupt_fs) (temp_name 0) = None
   \<and> map_of (files (snd (load_chunk corrupt_ds corrupt_fs 0 1))) (temp_name 0) = Some OtherFile"
  by code_simp


subsection \<open>Batches of an iteration\<close>





lemma load_chunk_rng [simp]: "load_chunk (ds\<lparr>rng := g\<rparr>) s lo hi = load_chunk ds s lo hi"
  by (simp add: load_chunk_def cong: format.case_cong sum.case_cong json.case_cong)









subsection \<open>The order and the sizes of the batches\<close>

lemma py_slice_min:
  assumes "0 \<le> j"
  shows "py_slice xs i (min j (int (length xs))) = py_slice xs i j"
proof -
  have "clamp_index (length xs) (min j (int (length xs))) = clamp_index (length xs) j"
    using assms by (auto simp: clamp_index_def min_def nat_le_iff)
  then show ?thesis by (simp add: py_slice_def Let_def)
qed

lemma slice_window:
  "0 < c \<Longrightarrow> py_slice xs (int k * c) (min (int k * c + c) (int (length xs)))
     = take (nat c) (drop (k * nat c) xs)"
  by (simp add: py_slice_min slice_chunk)

lemma ceil_nat:
  assumes "0 < (b::int)"
  shows "nat ((int L + b - 1) div b) = (L + nat b - 1) div nat b"
proof -
  have "int L + b - 1 = int (L + nat b - 1)" using assms by (simp add: of_nat_diff)
  moreover have "b = int (nat b)" using assms by simp
  ultimately have "(int L + b - 1) div b = int ((L + nat b - 1) div nat b)"
    by (metis zdiv_int)
  then show ?thesis by simp
qed

lemma range_chunks:
  "0 < b \<Longrightarrow> py_range 0 (int (length xs)) b
     = Inr (map (\<lambda>k. int k * b) [0..<length (chunks_of (nat b) xs)])"
  by (simp add: py_range_def range_up_eq chunks_of_def ceil_nat)






lemma chunks_of_map:
  "map f (chunks_of c xs) = map (\<lambda>k. f (take c (drop (k * c) xs))) [0..<length (chunks_of c xs)]"
  by (simp add: chunks_of_def)










lemma chunks_of_Nil: "chunks_of c [] = []"
  by (cases c) (simp_all add: chunks_of_def)




text \<open>
  On the same table converted into three shards of 4, 4 and 2 rows, the iteration
  yields the two batches of the first window and ends with IndexError at the second
  window, whose indices are not rows of the first shard.
\<close>

lemma example_ds_batches:
  "map batch_rows (fst (fst (iter lcg_randbelow example_ds example_store))) = [3, 1]
   \<and> snd (fst (iter lcg_randbelow example_ds example_store)) = Some IndexError"
  by code_simp





subsection \<open>Shuffling and the seed\<close>

text \<open>
  Claim C4, as stated, fails for a second iteration on the same object. The
  generator is made once, in \<open>__init__\<close>, and every run of \<open>__iter__\<close> shuffles with it
  and leaves it advanced: the second run starts from another state. With the example
  generator and seed 42 the first run visits the samples in the order
  4, 8, 0, 5, 6, 1, 3, 7, 9, 2 and the second in the order 7, 2, 8, 5, 4, 6, 9, 3, 0, 1.
\<close>

text \<open>
  The shuffle loop with the drawn pair taken apart by projections: the form in
  which the examples are evaluated.
\<close>

lemma shuffle_steps_unfold [code]:
  "shuffle_steps randbelow [] g x = (x, g)"
  "shuffle_steps randbelow (i # rest) g x =
     shuffle_steps randbelow rest (snd (randbelow g (i + 1)))
       (x[i := x ! fst (randbelow g (i + 1)), fst (randbelow g (i + 1)) := x ! i])"
  by (simp_all split: prod.splits)





subsection \<open>Reading back a converted table\<close>

lemma iloc_list_in_range:
  "\<forall>i\<in>set idxs. 0 \<le> i \<and> i < int (length xs)
   \<Longrightarrow> iloc_list xs idxs = Inr (map (\<lambda>i. xs ! nat i) idxs)"
  by (induction idxs) (simp_all add: iloc_at_def Let_def)

lemma column_values_length [simp]: "length (column_values t k) = length (body t)"
  by (simp add: column_values_def)

lemma batch_columns_in_range:
  assumes "distinct (map fst acc @ map fst hdr)"
    and "\<forall>i\<in>set idxs. 0 \<le> i \<and> i < int (length (body t))"
  shows "batch_columns t idxs hdr k acc
     = Inr (acc @ map (\<lambda>(j, (col, d)). (col, make_tensor d (map (\<lambda>i. column_values t j ! nat i) idxs)))
                   (zip [k..<k + length hdr] hdr))"
  using assms(1)
proof (induction hdr arbitrary: acc k)
  case Nil
  then show ?case by simp
next
  case (Cons a hdr)
  obtain col d where a: "a = (col, d)" by (cases a)
  let ?v = "make_tensor d (map (\<lambda>i. column_values t k ! nat i) idxs)"
  have il: "iloc_list (column_values t k) idxs = Inr (map (\<lambda>i. column_values t k ! nat i) idxs)"
    using assms(2) by (intro iloc_list_in_range) simp
  from Cons.prems a have fr: "col \<notin> fst ` set acc" by auto
  have upd: "AList.update col ?v acc = acc @ [(col, ?v)]" by (rule update_fresh[OF fr])
  from Cons.prems a have dist: "distinct (map fst (acc @ [(col, ?v)]) @ map fst hdr)" by auto
  have z: "zip [k..<k + length (a # hdr)] (a # hdr)
        = (k, a) # zip [Suc k..<Suc k + length hdr] hdr"
  proof -
    have "[k..<k + length (a # hdr)] = k # [Suc k..<Suc k + length hdr]"
      by (subst upt_rec) simp
    then show ?thesis by simp
  qed
  have "batch_columns t idxs (a # hdr) k acc
      = batch_columns t idxs hdr (Suc k) (acc @ [(col, ?v)])"
    using il upd by (simp add: a make_tensor_def)
  also have "\<dots> = Inr ((acc @ [(col, ?v)]) @ map (\<lambda>(j, (col, d)). (col, make_tensor d (map (\<lambda>i. column_values t j ! nat i) idxs)))
                   (zip [Suc k..<Suc k + length hdr] hdr))"
    by (rule Cons.IH[OF dist])
  finally show ?case by (simp only: z) (simp add: a)
qed

lemma batch_columns_expected:
  assumes "distinct (map fst (header t))"
    and "\<forall>i\<in>set idxs. 0 \<le> i \<and> i < int (length (body t))"
  shows "batch_columns t idxs (header t) 0 [] = Inr (expected_batch t idxs)"
  using batch_columns_in_range[of "[]" "header t" idxs t 0] assms
  by (simp add: expected_batch_def)

lemma chunk_batches_expected:
  assumes "0 < bsz" and "distinct (map fst (header t))"
    and "\<forall>i\<in>set cidx. 0 \<le> i \<and> i < int (length (body t))"
  shows "chunk_batches t cidx bsz (map (\<lambda>k. int k * bsz) ks)
     = (map (\<lambda>k. expected_batch t (take (nat bsz) (drop (k * nat bsz) cidx))) ks, None)"
proof (induction ks)
  case Nil
  then show ?case by simp
next
  case (Cons k ks)
  let ?idxs = "take (nat bsz) (drop (k * nat bsz) cidx)"
  have sl: "py_slice cidx (int k * bsz) (min (int k * bsz + bsz) (int (length cidx))) = ?idxs"
    using assms(1) by (rule slice_window)
  have "set ?idxs \<subseteq> set cidx" by (meson set_take_subset set_drop_subset subset_trans)
  with assms(3) have "\<forall>i\<in>set ?idxs. 0 \<le> i \<and> i < int (length (body t))" by blast
  from batch_columns_expected[OF assms(2) this] Cons sl show ?case
    by (simp add: Let_def)
qed

lemma list_min_ok: "xs \<noteq> [] \<Longrightarrow> \<exists>lo. list_min xs = Inr lo"
  by (cases xs) simp_all

lemma list_max_ok: "xs \<noteq> [] \<Longrightarrow> \<exists>hi. list_max xs = Inr hi"
  by (cases xs) simp_all

lemma iter_chunks_expected:
  assumes c: "0 < chunk_size ds" and b: "0 < batch_size ds"
    and d: "distinct (map fst (header t))"
    and r: "\<forall>i\<in>set indices. 0 \<le> i \<and> i < int (length (body t))"
    and ld: "\<And>s1 lo hi. I s1 \<Longrightarrow> \<exists>s2. load_chunk ds s1 lo hi = (Inr t, s2) \<and> I s2"
  shows "I s \<Longrightarrow> \<forall>k\<in>set ks. k * nat (chunk_size ds) < length indices \<Longrightarrow>
      \<exists>s'. iter_chunks ds (int (length indices)) indices (map (\<lambda>k. int k * chunk_size ds) ks) s
            = ((map (expected_batch t)
                  (concat (map (\<lambda>k. chunks_of (nat (batch_size ds))
                     (take (nat (chunk_size ds)) (drop (k * nat (chunk_size ds)) indices))) ks)),
                None), s')
         \<and> I s'"
proof (induction ks arbitrary: s)
  case Nil
  then show ?case by simp
next
  case (Cons k ks)
  let ?ci = "take (nat (chunk_size ds)) (drop (k * nat (chunk_size ds)) indices)"
  let ?A = "chunks_of (nat (batch_size ds)) ?ci"
  have sl: "py_slice indices (int k * chunk_size ds)
              (min (int k * chunk_size ds + chunk_size ds) (int (length indices))) = ?ci"
    using c by (rule slice_window)
  have rg: "py_range 0 (int (length ?ci)) (batch_size ds)
              = Inr (map (\<lambda>j. int j * batch_size ds) [0..<length ?A])"
    using b by (rule range_chunks)
  have ne: "?ci \<noteq> []" using Cons.prems(2) c by simp
  from list_min_ok[OF ne] obtain lo where lo: "list_min ?ci = Inr lo" by blast
  from list_max_ok[OF ne] obtain hi where hi: "list_max ?ci = Inr hi" by blast
  from ld[OF Cons.prems(1)] obtain s1 where
    l1: "load_chunk ds s lo (hi + 1) = (Inr t, s1)" and i1: "I s1" by blast
  have "set ?ci \<subseteq> set indices" by (meson set_take_subset set_drop_subset subset_trans)
  with r have rc: "\<forall>i\<in>set ?ci. 0 \<le> i \<and> i < int (length (body t))" by blast
  have cb: "chunk_batches t ?ci (batch_size ds) (map (\<lambda>j. int j * batch_size ds) [0..<length ?A])
      = (map (expected_batch t) ?A, None)"
    using chunk_batches_expected[OF b d rc, of "[0..<length ?A]"]
    by (simp add: chunks_of_map[of "expected_batch t"])
  from Cons.prems(2) have "\<forall>k\<in>set ks. k * nat (chunk_size ds) < length indices" by simp
  from Cons.IH[OF i1 this] obtain s' where
    ic: "iter_chunks ds (int (length indices)) indices (map (\<lambda>k. int k * chunk_size ds) ks) s1
            = ((map (expected_batch t)
                  (concat (map (\<lambda>k. chunks_of (nat (batch_size ds))
                     (take (nat (chunk_size ds)) (drop (k * nat (chunk_size ds)) indices))) ks)),
                None), s')"
    and i': "I s'" by blast
  show ?case
    using sl lo hi l1 rg cb ic i' by (simp add: Let_def)
qed

lemma dirs_clear_index: "dirs_clear s out \<Longrightarrow> dir_prefix out @ ''index.json'' \<notin> set (dirs s)"
  by (auto simp: dirs_clear_def list_all_iff)

lemma dirs_clear_shard: "dirs_clear s out \<Longrightarrow> dir_prefix out @ shard_file codec k \<notin> set (dirs s)"
  by (auto simp: dirs_clear_def list_all_iff shard_file_def)

lemma dirs_clear_temp: "dirs_clear s out \<Longrightarrow> temp_name k \<notin> set (dirs s)"
  by (auto simp: dirs_clear_def list_all_iff temp_name_def)

lemma endswith_append: "endswith (y @ suf) suf"
  by (simp add: endswith_def)

lemma endswith_last:
  assumes "endswith s suf" and "suf \<noteq> []"
  shows "last s = last suf"
proof -
  from assms(1) have "take (length s - length suf) s @ suf = s"
    by (metis endswith_def append_take_drop_id)
  then have "last s = last (take (length s - length suf) s @ suf)" by simp
  with assms(2) show ?thesis by simp
qed

lemma endswith_shard:
  "endswith (x @ shard_file codec k) ''.zstd'' = (codec = ''zstd'')"
proof (cases "codec = ''zstd''")
  case True
  have e: "x @ shard_file codec k = (x @ ''shard.'' @ fmt_05d k @ ''.parquet'') @ ''.zstd''"
    using True by (simp add: shard_file_def)
  have "endswith (x @ shard_file codec k) ''.zstd''"
    unfolding e by (rule endswith_append)
  with True show ?thesis by simp
next
  case False
  have "\<not> endswith (x @ shard_file codec k) ''.zstd''"
  proof
    assume "endswith (x @ shard_file codec k) ''.zstd''"
    from endswith_last[OF this] have "last (x @ shard_file codec k) = CHR ''d''" by simp
    then show False using False by (simp add: shard_file_def)
  qed
  with False show ?thesis by simp
qed

lemma temp_ne_zstd: "temp_name k \<noteq> x @ shard_file ''zstd'' j"
proof
  assume "temp_name k = x @ shard_file ''zstd'' j"
  then have "last (temp_name k) = last (x @ shard_file ''zstd'' j)" by simp
  then show False by (simp add: temp_name_def shard_file_def)
qed

lemma load_single_shard:
  assumes fmt: "format ds = CustomStreaming" and dp: "data_path ds = out"
    and sh: "shards ds = JArr (JStr (shard_file codec 0) # rest)"
    and cl: "dirs_clear s1 out"
    and bl: "map_of (files s1) (dir_prefix out @ shard_file codec 0) = Some (shard_blob codec t)"
  shows "\<exists>s2. load_chunk ds s1 lo hi = (Inr t, s2)
           \<and> dirs s2 = dirs s1
           \<and> map_of (files s2) (dir_prefix out @ shard_file codec 0) = Some (shard_blob codec t)"
proof (cases "codec = ''zstd''")
  case False
  have rf: "read_file s1 (dir_prefix out @ shard_file codec 0) = Inr (ParquetFile t)"
    using bl dirs_clear_shard[OF cl] False by (simp add: read_file_def shard_blob_def)
  show ?thesis
    using False rf bl
    by (simp add: load_chunk_def fmt dp sh first_shard_def path_join_shard endswith_shard
                  read_parquet_def)
next
  case True
  let ?p = "dir_prefix out @ shard_file codec 0"
  let ?tn = "temp_name (tmp_count s1)"
  let ?s1a = "(write_file s1 ?tn (ParquetFile t))\<lparr>tmp_count := Suc (tmp_count s1)\<rparr>"
  have rf: "read_file s1 ?p = Inr (ZstdFile (ParquetFile t))"
    using bl dirs_clear_shard[OF cl] True by (simp add: read_file_def shard_blob_def)
  have nt: "named_temporary_file s1 (ParquetFile t) = (?tn, ?s1a)"
    by (simp add: named_temporary_file_def)
  have rp: "read_parquet ?s1a ?tn = Inr t"
    using dirs_clear_temp[OF cl] by (simp add: read_parquet_def read_file_def)
  have ne: "?tn \<noteq> ?p" using temp_ne_zstd True by simp
  have "load_chunk ds s1 lo hi = (Inr t, remove_file ?s1a ?tn)"
    using True rf nt rp
    by (simp add: load_chunk_def fmt dp sh first_shard_def path_join_shard endswith_shard
                  zstd_decompress_def)
  moreover have "dirs (remove_file ?s1a ?tn) = dirs s1" by simp
  moreover have "map_of (files (remove_file ?s1a ?tn)) ?p = Some (shard_blob codec t)"
    using ne bl by (simp add: remove_file_def write_file_def delete_conv' update_conv')
  ultimately show ?thesis by blast
qed

lemma init_converted:
  assumes c: "0 < cw"
    and mk: "makedirs s out = (Inr (), s0)"
    and inp: "read_input s0 input_path = Inr df"
    and cl: "dirs_clear s0 out"
  shows "init mk_rng fresh (snd (convert_to_streaming_format s input_path out codec cw)) out
           bsz shuf sd cr
     = Inr \<lparr>data_path = out, batch_size = bsz, shuffle = shuf,
            seed = (case sd of Some v \<Rightarrow> v | None \<Rightarrow> fresh), chunk_size = cr,
            format = CustomStreaming,
            index = make_index df (infer_columns df)
                      (map (\<lambda>k. shard_file codec (int k))
                         [0..<nat ((int (length (body df)) + cw - 1) div cw)]),
            ds_length = JInt (int (length (body df))),
            columns = JObj (map (\<lambda>(c, t). (c, JStr t)) (infer_columns df)),
            shards = JArr (map JStr (map (\<lambda>k. shard_file codec (int k))
                         [0..<nat ((int (length (body df)) + cw - 1) div cw)])),
            rng = mk_rng (case sd of Some v \<Rightarrow> v | None \<Rightarrow> fresh)\<rparr>"
proof -
  let ?s' = "snd (convert_to_streaming_format s input_path out codec cw)"
  let ?names = "map (\<lambda>k. shard_file codec (int k))
                         [0..<nat ((int (length (body df)) + cw - 1) div cw)]"
  have d: "dirs ?s' = dirs s0" by (rule convert_dirs[OF c mk inp])
  have isd: "isdir ?s' out" using makedirs_ok(1)[OF mk] d by (simp add: isdir_def)
  have ix: "map_of (files ?s') (dir_prefix out @ ''index.json'')
      = Some (JsonFile (make_index df (infer_columns df) ?names))"
    using convert_index[OF c mk inp, of codec] by (simp add: stored_blob_def path_join_index)
  have ex: "exists_path ?s' (path_join out ''index.json'')"
    using ix by (simp add: exists_path_def path_join_index)
  have rf: "read_file ?s' (path_join out ''index.json'')
      = Inr (JsonFile (make_index df (infer_columns df) ?names))"
    using ix dirs_clear_index[OF cl] d by (simp add: read_file_def path_join_index)
  have li: "load_index ?s' out
      = Inr (make_index df (infer_columns df) ?names, JInt (int (length (body df))),
             JObj (map (\<lambda>(c, t). (c, JStr t)) (infer_columns df)), JArr (map JStr ?names))"
    by (simp add: load_index_def rf dict_get_def make_index_def df_len_def)
  show ?thesis
    by (simp add: init_def isd ex li Let_def)
qed


end
